theory Spec2Isabelle
  imports Complex_Main
begin

section \<open>Zombie Hunter: data model\<close>

text \<open>
  The program (\<^verbatim>\<open>src/main.py\<close>, class \<^verbatim>\<open>ZombieHunter\<close>) scans regions for unattached
  volumes and idle static addresses, estimates their cost, optionally asks a hosted model
  for a risk score per resource and prints a table or writes a report.

  Everything outside the program is a parameter of the model: the answers of the cloud
  API (\<^verbatim>\<open>describe_volumes\<close>, \<^verbatim>\<open>describe_addresses\<close>, \<^verbatim>\<open>invoke_model\<close>), the library
  function \<^verbatim>\<open>json.loads\<close>, and the arithmetic of Python's floats. Writing to the console,
  to the error stream and to the report file is recorded as a list of events and is taken
  not to raise.
\<close>

subsection \<open>Exceptions\<close>

text \<open>
  An exception is a value. The program tells \<^verbatim>\<open>ClientError\<close> (with the error code of the
  service's answer, \<^verbatim>\<open>e.response['Error']['Code']\<close>) from every other exception class;
  the other constructors name the classes the modelled operations raise.
\<close>

datatype exn =
    ClientError string
  | NoCredentialsError
  | KeyError
  | TypeError
  | IndexError
  | ValueError
  | AttributeError
  | JSONDecodeError
  | NoModelsAvailable
  | OtherException string

subsection \<open>Floats\<close>

text \<open>
  Python's floats are kept abstract: \<open>'f\<close> is the type of float values and the record
  below holds the operations the program uses on them. \<open>f_lit q\<close> is the float a decimal
  literal of value \<open>q\<close> denotes, \<open>f_of_int\<close> the conversion Python applies to an \<^verbatim>\<open>int\<close>
  operand of a mixed operation, \<open>f_round x n\<close> is \<^verbatim>\<open>round(x, n)\<close>. Nothing is assumed
  about them.
\<close>

record 'f float_ops =
  f_lit :: "rat \<Rightarrow> 'f"
  f_of_int :: "int \<Rightarrow> 'f"
  f_mul :: "'f \<Rightarrow> 'f \<Rightarrow> 'f"
  f_add :: "'f \<Rightarrow> 'f \<Rightarrow> 'f"
  f_round :: "'f \<Rightarrow> nat \<Rightarrow> 'f"

text \<open>
  Exact decimal arithmetic (rounding half to even): an instance of the operations for the
  examples. It is not the binary arithmetic of Python; the theorems hold for any operations.
\<close>

definition exact_ops :: "rat float_ops" where
  "exact_ops =
     \<lparr>f_lit = (\<lambda>q. q), f_of_int = of_int, f_mul = (*), f_add = (+),
      f_round = (\<lambda>x n.
        (let y = x * 10 ^ n; r = \<lfloor>y\<rfloor>; d = y - of_int r in
         of_int (if d < 1 / 2 then r
                 else if 1 / 2 < d then r + 1
                 else if even r then r else r + 1) / 10 ^ n))\<rparr>"

subsection \<open>JSON values\<close>

text \<open>
  What \<^verbatim>\<open>json.loads\<close> returns. An object is the Python \<^verbatim>\<open>dict\<close> it becomes, as the list
  of its items in insertion order. A float is finite (a rational) or one of the three
  non-finite values \<^verbatim>\<open>json.loads\<close> accepts.
\<close>

datatype pyfloat = Finite rat | PosInf | NegInf | NaN

datatype json =
    JNull
  | JBool bool
  | JInt int
  | JFloat pyfloat
  | JString string
  | JArray "json list"
  | JObject "(string \<times> json) list"

subsection \<open>Resources\<close>

text \<open>
  The \<^verbatim>\<open>ai_analysis\<close> sub-record. Both fields are whatever the model's answer held under
  \<^verbatim>\<open>risk_score\<close> and \<^verbatim>\<open>reason\<close>: the program copies them unchecked.
\<close>

record analysis =
  risk_score :: json
  reason :: json

text \<open>
  A resource is the \<^verbatim>\<open>dict\<close> a scanner builds: \<^verbatim>\<open>size\<close> is set for volumes only,
  \<^verbatim>\<open>public_ip\<close> for addresses only, and \<^verbatim>\<open>ai_analysis\<close> is absent until the analyzer
  writes it. \<open>tags\<close> is a \<^verbatim>\<open>dict\<close>, kept as its items in insertion order. (The key
  \<^verbatim>\<open>size\<close> is the field \<open>size_gb\<close>.)
\<close>

record 'f zombie =
  resource_type :: string
  resource_id :: string
  size_gb :: "int option"
  public_ip :: "string option"
  region :: string
  tags :: "(string \<times> string) list"
  cost_estimate :: 'f
  ai_analysis :: "analysis option"

subsection \<open>Answers of the cloud API\<close>

text \<open>
  The entries of \<^verbatim>\<open>response['Volumes']\<close> and \<^verbatim>\<open>response['Addresses']\<close>. The keys the
  scanners subscript are fields; the keys they test or read with \<^verbatim>\<open>.get\<close> are optional.
\<close>

record volume =
  VolumeId :: string
  Size :: int
  VolumeType :: string
  VolumeTags :: "(string \<times> string) list option"

record address =
  AllocationId :: string
  PublicIp :: string
  InstanceId :: "string option"
  NetworkInterfaceId :: "string option"
  AddressTags :: "(string \<times> string) list option"

subsection \<open>Output\<close>

text \<open>
  One event per line the program prints, with the values the line is formatted from.
  \<open>Echo_scanning\<close> and \<open>Echo_error_in_region\<close> are the \<^verbatim>\<open>click.echo\<close> calls of the scan
  (the second on the error stream), \<open>Echo_error_parsing\<close> the one of the merge; the others
  are \<^verbatim>\<open>console.print\<close> calls. A table row holds the six cells of \<^verbatim>\<open>table.add_row\<close>.
\<close>

record 'f table_row =
  row_type :: string
  row_id :: string
  row_region :: string
  row_cost :: 'f
  row_risk :: string
  row_color :: string
  row_reason :: string

datatype 'f event =
    Echo_scanning string
  | Echo_error_in_region string exn
  | Print_trying_model string
  | Print_used_model string
  | Print_model_not_available string string
  | Print_ai_failed exn
  | Echo_error_parsing exn
  | Print_no_zombies
  | Print_table "'f table_row list"
  | Print_total_cost 'f
  | Print_risk_summary nat nat nat nat
  | Print_report_saved string

section \<open>Python's dictionaries and strings\<close>

text \<open>\<^verbatim>\<open>d.get(k, default)\<close> on a dictionary kept as its list of items.\<close>

definition dict_get :: "('k \<times> 'v) list \<Rightarrow> 'k \<Rightarrow> 'v \<Rightarrow> 'v" where
  "dict_get d k dflt = (case map_of d k of Some v \<Rightarrow> v | None \<Rightarrow> dflt)"

text \<open>\<^verbatim>\<open>d[k] = v\<close>: an existing key keeps its place, a new one goes last.\<close>

fun dict_set :: "('k \<times> 'v) list \<Rightarrow> 'k \<Rightarrow> 'v \<Rightarrow> ('k \<times> 'v) list" where
  "dict_set [] k v = [(k, v)]"
| "dict_set ((k', v') # d) k v =
     (if k' = k then (k, v) # d else (k', v') # dict_set d k v)"

text \<open>
  The comprehension \<^verbatim>\<open>{tag['Key']: tag['Value'] for tag in x.get('Tags', [])}\<close>, the
  tag list given as its (Key, Value) pairs.
\<close>

definition tags_dict :: "(string \<times> string) list option \<Rightarrow> (string \<times> string) list" where
  "tags_dict ts =
     foldl (\<lambda>d (k, v). dict_set d k v) [] (case ts of None \<Rightarrow> [] | Some xs \<Rightarrow> xs)"

section \<open>Cost estimator\<close>

text \<open>The rate table of \<^verbatim>\<open>_estimate_ebs_cost\<close>, each rate as the decimal literal written.\<close>

definition pricing :: "(string \<times> rat) list" where
  "pricing =
     [(''gp2'', 10 / 100),
      (''gp3'', 8 / 100),
      (''io1'', 125 / 1000),
      (''io2'', 125 / 1000),
      (''st1'', 45 / 1000),
      (''sc1'', 25 / 1000),
      (''standard'', 5 / 100)]"

text \<open>
  \<^verbatim>\<open>rate = pricing.get(volume_type, 0.10); return round(size_gb * rate, 2)\<close>.
  The product of an \<^verbatim>\<open>int\<close> and a float converts the \<^verbatim>\<open>int\<close> first.
\<close>

definition estimate_ebs_cost :: "'f float_ops \<Rightarrow> int \<Rightarrow> string \<Rightarrow> 'f" where
  "estimate_ebs_cost ops size_gb' volume_type =
     (let rate = dict_get pricing volume_type (10 / 100) in
      f_round ops (f_mul ops (f_of_int ops size_gb') (f_lit ops rate)) 2)"

text \<open>\<^verbatim>\<open>return 3.65\<close>.\<close>

definition estimate_eip_cost :: "'f float_ops \<Rightarrow> 'f" where
  "estimate_eip_cost ops = f_lit ops (365 / 100)"

section \<open>Scanners and the hunt\<close>

text \<open>
  An effectful function returns its result, or the exception it raises, with the events
  it printed.
\<close>

type_synonym ('f, 'a) run = "(exn + 'a) \<times> 'f event list"

text \<open>
  \<^verbatim>\<open>find_unattached_volumes\<close>. \<open>describe_volumes r\<close> is what creating the client for
  region \<open>r\<close> and calling \<^verbatim>\<open>describe_volumes\<close> with the status filter gives: the list
  \<^verbatim>\<open>response['Volumes']\<close> or the exception raised. Only \<^verbatim>\<open>ClientError\<close> is caught.
\<close>

definition volume_record :: "'f float_ops \<Rightarrow> string \<Rightarrow> volume \<Rightarrow> 'f zombie" where
  "volume_record ops r v =
     \<lparr>resource_type = ''ebs_volume'',
      resource_id = VolumeId v,
      size_gb = Some (Size v),
      public_ip = None,
      region = r,
      tags = tags_dict (VolumeTags v),
      cost_estimate = estimate_ebs_cost ops (Size v) (VolumeType v),
      ai_analysis = None\<rparr>"

definition find_unattached_volumes ::
  "'f float_ops \<Rightarrow> (string \<Rightarrow> exn + volume list) \<Rightarrow> string \<Rightarrow> ('f, 'f zombie list) run" where
  "find_unattached_volumes ops describe_volumes r =
     (case describe_volumes r of
        Inr vs \<Rightarrow> (Inr (map (volume_record ops r) vs), [])
      | Inl (ClientError code) \<Rightarrow> (Inr [], [Echo_error_in_region r (ClientError code)])
      | Inl e \<Rightarrow> (Inl e, []))"

text \<open>
  \<^verbatim>\<open>find_idle_elastic_ips\<close>: an address is kept when neither \<^verbatim>\<open>InstanceId\<close> nor
  \<^verbatim>\<open>NetworkInterfaceId\<close> is a key of it.
\<close>

definition idle :: "address \<Rightarrow> bool" where
  "idle a = (InstanceId a = None \<and> NetworkInterfaceId a = None)"

definition eip_record :: "'f float_ops \<Rightarrow> string \<Rightarrow> address \<Rightarrow> 'f zombie" where
  "eip_record ops r a =
     \<lparr>resource_type = ''elastic_ip'',
      resource_id = AllocationId a,
      size_gb = None,
      public_ip = Some (PublicIp a),
      region = r,
      tags = tags_dict (AddressTags a),
      cost_estimate = estimate_eip_cost ops,
      ai_analysis = None\<rparr>"

definition find_idle_elastic_ips ::
  "'f float_ops \<Rightarrow> (string \<Rightarrow> exn + address list) \<Rightarrow> string \<Rightarrow> ('f, 'f zombie list) run" where
  "find_idle_elastic_ips ops describe_addresses r =
     (case describe_addresses r of
        Inr as \<Rightarrow> (Inr (map (eip_record ops r) (filter idle as)), [])
      | Inl (ClientError code) \<Rightarrow> (Inr [], [Echo_error_in_region r (ClientError code)])
      | Inl e \<Rightarrow> (Inl e, []))"

text \<open>
  \<^verbatim>\<open>hunt_zombies\<close>: the loop over the regions, \<open>acc\<close> being \<^verbatim>\<open>all_zombies\<close>. An exception
  a scanner lets through ends the loop.
\<close>

fun hunt_loop ::
  "'f float_ops \<Rightarrow> (string \<Rightarrow> exn + volume list) \<Rightarrow> (string \<Rightarrow> exn + address list) \<Rightarrow>
   'f zombie list \<Rightarrow> string list \<Rightarrow> ('f, 'f zombie list) run" where
  "hunt_loop ops dv da acc [] = (Inr acc, [])"
| "hunt_loop ops dv da acc (r # rs) =
     (case find_unattached_volumes ops dv r of
        (Inl e, out1) \<Rightarrow> (Inl e, Echo_scanning r # out1)
      | (Inr volumes, out1) \<Rightarrow>
          (case find_idle_elastic_ips ops da r of
             (Inl e, out2) \<Rightarrow> (Inl e, Echo_scanning r # out1 @ out2)
           | (Inr ips, out2) \<Rightarrow>
               (case hunt_loop ops dv da (acc @ volumes @ ips) rs of
                  (res, out3) \<Rightarrow> (res, Echo_scanning r # out1 @ out2 @ out3))))"

definition hunt_zombies ::
  "'f float_ops \<Rightarrow> (string \<Rightarrow> exn + volume list) \<Rightarrow> (string \<Rightarrow> exn + address list) \<Rightarrow>
   string list \<Rightarrow> string list option \<Rightarrow> ('f, 'f zombie list) run" where
  "hunt_zombies ops dv da self_regions regions =
     hunt_loop ops dv da []
       (case regions of None \<Rightarrow> self_regions | Some rs \<Rightarrow> rs)"

section \<open>AI risk analyzer\<close>

subsection \<open>Python operations on strings and JSON values\<close>

text \<open>\<^verbatim>\<open>s.find(c)\<close> and \<^verbatim>\<open>s.rfind(c)\<close> for a one-character \<open>c\<close>: an index, or \<open>-1\<close>.\<close>

fun py_find :: "string \<Rightarrow> char \<Rightarrow> int" where
  "py_find [] c = - 1"
| "py_find (x # xs) c =
     (if x = c then 0
      else (let i = py_find xs c in if i = - 1 then - 1 else i + 1))"

definition py_rfind :: "string \<Rightarrow> char \<Rightarrow> int" where
  "py_rfind s c =
     (let i = py_find (rev s) c in
      if i = - 1 then - 1 else int (length s) - 1 - i)"

text \<open>\<^verbatim>\<open>s[a:b]\<close> for \<open>a\<close> and \<open>b\<close> not negative.\<close>

definition py_slice :: "string \<Rightarrow> int \<Rightarrow> int \<Rightarrow> string" where
  "py_slice s a b = drop (nat a) (take (nat b) s)"

text \<open>\<^verbatim>\<open>x[k]\<close> for a string key \<open>k\<close>: only a \<^verbatim>\<open>dict\<close> accepts it.\<close>

definition subscript_key :: "json \<Rightarrow> string \<Rightarrow> exn + json" where
  "subscript_key x k =
     (case x of
        JObject d \<Rightarrow> (case map_of d k of None \<Rightarrow> Inl KeyError | Some v \<Rightarrow> Inr v)
      | _ \<Rightarrow> Inl TypeError)"

text \<open>
  \<^verbatim>\<open>x[n]\<close> for an integer \<open>n\<close> that is not negative. The keys of a \<^verbatim>\<open>dict\<close> that
  \<^verbatim>\<open>json.loads\<close> built are strings, so an integer is never one of them.
\<close>

definition subscript_index :: "json \<Rightarrow> nat \<Rightarrow> exn + json" where
  "subscript_index x n =
     (case x of
        JArray xs \<Rightarrow> (if n < length xs then Inr (xs ! n) else Inl IndexError)
      | JString s \<Rightarrow> (if n < length s then Inr (JString [s ! n]) else Inl IndexError)
      | JObject d \<Rightarrow> Inl KeyError
      | _ \<Rightarrow> Inl TypeError)"

text \<open>\<^verbatim>\<open>x.get(k, default)\<close>: only a \<^verbatim>\<open>dict\<close> has the method.\<close>

definition method_get :: "json \<Rightarrow> string \<Rightarrow> json \<Rightarrow> exn + json" where
  "method_get x k dflt =
     (case x of JObject d \<Rightarrow> Inr (dict_get d k dflt) | _ \<Rightarrow> Inl AttributeError)"

text \<open>
  The values a \<^verbatim>\<open>for\<close> loop over \<open>x\<close> visits: the elements of a list, the keys of a
  \<^verbatim>\<open>dict\<close>, the characters of a string; nothing else is iterable.
\<close>

definition py_iter :: "json \<Rightarrow> exn + json list" where
  "py_iter x =
     (case x of
        JArray xs \<Rightarrow> Inr xs
      | JObject d \<Rightarrow> Inr (map (\<lambda>kv. JString (fst kv)) d)
      | JString s \<Rightarrow> Inr (map (\<lambda>c. JString [c]) s)
      | _ \<Rightarrow> Inl TypeError)"

text \<open>
  \<^verbatim>\<open>x - 1\<close>: an \<^verbatim>\<open>int\<close> for an \<^verbatim>\<open>int\<close> or a \<^verbatim>\<open>bool\<close>, a float for a float. The
  subtraction on a finite float is written exactly: the difference of a double and 1 is
  rounded, but the rounding changes neither of the two comparisons of \<open>in_bounds\<close>.
\<close>

datatype pynum = PInt int | PFloat pyfloat

definition minus_one :: "json \<Rightarrow> exn + pynum" where
  "minus_one x =
     (case x of
        JInt n \<Rightarrow> Inr (PInt (n - 1))
      | JBool b \<Rightarrow> Inr (PInt ((if b then 1 else 0) - 1))
      | JFloat (Finite q) \<Rightarrow> Inr (PFloat (Finite (q - 1)))
      | JFloat f \<Rightarrow> Inr (PFloat f)
      | _ \<Rightarrow> Inl TypeError)"

text \<open>\<^verbatim>\<open>0 <= idx < n\<close>.\<close>

definition in_bounds :: "pynum \<Rightarrow> nat \<Rightarrow> bool" where
  "in_bounds idx n =
     (case idx of
        PInt i \<Rightarrow> 0 \<le> i \<and> i < int n
      | PFloat (Finite q) \<Rightarrow> 0 \<le> q \<and> q < of_nat n
      | PFloat _ \<Rightarrow> False)"

subsection \<open>Merging the model's answer\<close>

definition unknown_not_available :: analysis where
  "unknown_not_available =
     \<lparr>risk_score = JString ''Unknown'',
      reason = JString ''Analysis not available for this resource''\<rparr>"

definition unknown_failed_to_parse :: analysis where
  "unknown_failed_to_parse =
     \<lparr>risk_score = JString ''Unknown'',
      reason = JString ''Failed to parse AI analysis''\<rparr>"

definition unknown_unavailable :: analysis where
  "unknown_unavailable =
     \<lparr>risk_score = JString ''Unknown'',
      reason = JString ''AI analysis unavailable - check Bedrock model access''\<rparr>"

text \<open>
  The first four statements of the \<^verbatim>\<open>try\<close> block of \<^verbatim>\<open>_merge_analysis\<close>: the text
  between the first opening and the last closing brace, parsed. \<open>json_loads\<close> is
  \<^verbatim>\<open>json.loads\<close>, \<open>None\<close> where it raises. The text is a JSON value itself: it is what
  the answer of the service held under \<^verbatim>\<open>text\<close>, and only a string has \<^verbatim>\<open>find\<close>.
\<close>

definition extract_json :: "(string \<Rightarrow> json option) \<Rightarrow> json \<Rightarrow> exn + json" where
  "extract_json json_loads analysis_text =
     (case analysis_text of
        JString s \<Rightarrow>
          (let start_idx = py_find s (CHR ''{'');
               end_idx = py_rfind s (CHR ''}'') + 1 in
           if start_idx = - 1 \<or> end_idx = 0 then Inl ValueError
           else (case json_loads (py_slice s start_idx end_idx) of
                   None \<Rightarrow> Inl JSONDecodeError
                 | Some analysis_data \<Rightarrow> Inr analysis_data))
      | _ \<Rightarrow> Inl AttributeError)"

text \<open>
  The body of the merge loop for one element of \<^verbatim>\<open>analyses\<close>. The right-hand side of the
  assignment is evaluated before \<^verbatim>\<open>zombies[resource_idx]\<close>, which raises for a float.
\<close>

definition merge_entry :: "'f zombie list \<Rightarrow> json \<Rightarrow> exn + 'f zombie list" where
  "merge_entry zombies a =
     (case subscript_key a ''resource_number'' of
        Inl e \<Rightarrow> Inl e
      | Inr n \<Rightarrow>
          (case minus_one n of
             Inl e \<Rightarrow> Inl e
           | Inr resource_idx \<Rightarrow>
               if in_bounds resource_idx (length zombies) then
                 (case subscript_key a ''risk_score'' of
                    Inl e \<Rightarrow> Inl e
                  | Inr rs \<Rightarrow>
                      (case subscript_key a ''reason'' of
                         Inl e \<Rightarrow> Inl e
                       | Inr rn \<Rightarrow>
                           (case resource_idx of
                              PInt i \<Rightarrow>
                                Inr (zombies[nat i := (zombies ! nat i)
                                       \<lparr>ai_analysis := Some \<lparr>risk_score = rs, reason = rn\<rparr>\<rparr>])
                            | PFloat f \<Rightarrow> Inl TypeError)))
               else Inr zombies))"

text \<open>
  The merge loop. The records are changed in place, so an exception leaves the list as
  the entries before it made it: the exception comes with that list.
\<close>

fun merge_loop :: "'f zombie list \<Rightarrow> json list \<Rightarrow> (exn \<times> 'f zombie list) + 'f zombie list" where
  "merge_loop zombies [] = Inr zombies"
| "merge_loop zombies (a # as) =
     (case merge_entry zombies a of
        Inl e \<Rightarrow> Inl (e, zombies)
      | Inr zombies' \<Rightarrow> merge_loop zombies' as)"

text \<open>The second loop: a record with no \<^verbatim>\<open>ai_analysis\<close> key gets the default.\<close>

definition add_default :: "'f zombie list \<Rightarrow> 'f zombie list" where
  "add_default zombies =
     map (\<lambda>z. case ai_analysis z of
                None \<Rightarrow> z\<lparr>ai_analysis := Some unknown_not_available\<rparr>
              | Some a \<Rightarrow> z) zombies"

text \<open>The loop of both exception handlers: every record gets the same annotation.\<close>

definition annotate_all :: "analysis \<Rightarrow> 'f zombie list \<Rightarrow> 'f zombie list" where
  "annotate_all a zombies = map (\<lambda>z. z\<lparr>ai_analysis := Some a\<rparr>) zombies"

text \<open>
  The \<^verbatim>\<open>try\<close> block of \<^verbatim>\<open>_merge_analysis\<close>, with the list as it stands when an exception
  is raised.
\<close>

definition merge_try ::
  "(string \<Rightarrow> json option) \<Rightarrow> 'f zombie list \<Rightarrow> json \<Rightarrow> (exn \<times> 'f zombie list) + 'f zombie list" where
  "merge_try json_loads zombies analysis_text =
     (case extract_json json_loads analysis_text of
        Inl e \<Rightarrow> Inl (e, zombies)
      | Inr analysis_data \<Rightarrow>
          (case method_get analysis_data ''analyses'' (JArray []) of
             Inl e \<Rightarrow> Inl (e, zombies)
           | Inr v \<Rightarrow>
               (case py_iter v of
                  Inl e \<Rightarrow> Inl (e, zombies)
                | Inr as \<Rightarrow>
                    (case merge_loop zombies as of
                       Inl (e, zombies') \<Rightarrow> Inl (e, zombies')
                     | Inr zombies' \<Rightarrow> Inr (add_default zombies')))))"

text \<open>\<^verbatim>\<open>_merge_analysis\<close>: the \<^verbatim>\<open>try\<close> block and its handler for every \<^verbatim>\<open>Exception\<close>.\<close>

definition merge_analysis ::
  "(string \<Rightarrow> json option) \<Rightarrow> 'f zombie list \<Rightarrow> json \<Rightarrow> ('f, 'f zombie list) run" where
  "merge_analysis json_loads zombies analysis_text =
     (case merge_try json_loads zombies analysis_text of
        Inr zombies' \<Rightarrow> (Inr zombies', [])
      | Inl (e, zombies') \<Rightarrow>
          (Inr (annotate_all unknown_failed_to_parse zombies'), [Echo_error_parsing e]))"

subsection \<open>Model selection\<close>

definition models_to_try :: "string list" where
  "models_to_try =
     [''anthropic.claude-3-haiku-20240307-v1:0'',
      ''anthropic.claude-3-5-sonnet-20241022-v2:0'',
      ''anthropic.claude-3-sonnet-20240229-v1:0'',
      ''anthropic.claude-instant-v1'']"

definition unavailable_codes :: "string list" where
  "unavailable_codes =
     [''ResourceNotFoundException'', ''ValidationException'', ''AccessDeniedException'']"

text \<open>
  \<^verbatim>\<open>json.loads(response['body'].read())['content'][0]['text']\<close>, for the body read.
\<close>

definition response_text :: "(string \<Rightarrow> json option) \<Rightarrow> string \<Rightarrow> exn + json" where
  "response_text json_loads body =
     (case json_loads body of
        None \<Rightarrow> Inl JSONDecodeError
      | Some response_body \<Rightarrow>
          (case subscript_key response_body ''content'' of
             Inl e \<Rightarrow> Inl e
           | Inr content \<Rightarrow>
               (case subscript_index content 0 of
                  Inl e \<Rightarrow> Inl e
                | Inr first \<Rightarrow> subscript_key first ''text'')))"

text \<open>
  The \<^verbatim>\<open>try\<close> block of the loop over the identifiers, for one identifier.
  \<open>invoke_model m\<close> is what \<^verbatim>\<open>bedrock.invoke_model\<close> gives for the identifier \<open>m\<close>: the
  body of the answer or the exception raised. The request is the same for every
  identifier but for \<open>m\<close>: its prompt (\<^verbatim>\<open>_create_analysis_prompt\<close>) is built once, before
  the loop, from fields every record has.
\<close>

definition attempt ::
  "(string \<Rightarrow> json option) \<Rightarrow> (string \<Rightarrow> exn + string) \<Rightarrow> 'f zombie list \<Rightarrow> string \<Rightarrow>
   ('f, 'f zombie list) run" where
  "attempt json_loads invoke_model zombies model_id =
     (case invoke_model model_id of
        Inl e \<Rightarrow> (Inl e, [Print_trying_model model_id])
      | Inr body \<Rightarrow>
          (case response_text json_loads body of
             Inl e \<Rightarrow> (Inl e, [Print_trying_model model_id])
           | Inr analysis_text \<Rightarrow>
               (case merge_analysis json_loads zombies analysis_text of
                  (res, out) \<Rightarrow>
                    (res, [Print_trying_model model_id, Print_used_model model_id] @ out))))"

text \<open>
  The loop over the identifiers with its \<^verbatim>\<open>except ClientError\<close> clause, and the
  \<^verbatim>\<open>raise\<close> that follows the loop.
\<close>

fun try_models ::
  "(string \<Rightarrow> json option) \<Rightarrow> (string \<Rightarrow> exn + string) \<Rightarrow> 'f zombie list \<Rightarrow> string list \<Rightarrow>
   ('f, 'f zombie list) run" where
  "try_models json_loads invoke_model zombies [] = (Inl NoModelsAvailable, [])"
| "try_models json_loads invoke_model zombies (model_id # ms) =
     (case attempt json_loads invoke_model zombies model_id of
        (Inr res, out) \<Rightarrow> (Inr res, out)
      | (Inl (ClientError error_code), out) \<Rightarrow>
          (if error_code \<in> set unavailable_codes then
             (case try_models json_loads invoke_model zombies ms of
                (res, out') \<Rightarrow>
                  (res, out @ [Print_model_not_available model_id error_code] @ out'))
           else (Inl (ClientError error_code), out))
      | (Inl e, out) \<Rightarrow> (Inl e, out))"

text \<open>
  \<^verbatim>\<open>analyze_with_ai\<close>. \<open>bedrock\<close> is what creating the client gives: the exception raised,
  or the client, given by its \<^verbatim>\<open>invoke_model\<close>. The outer handler catches every
  \<^verbatim>\<open>Exception\<close>; the list it annotates is the input, which nothing has changed when an
  exception reaches it (the merge, the only writer, returns whenever it is called).
\<close>

definition analyze_with_ai ::
  "(string \<Rightarrow> json option) \<Rightarrow> (exn + (string \<Rightarrow> exn + string)) \<Rightarrow> 'f zombie list \<Rightarrow>
   ('f, 'f zombie list) run" where
  "analyze_with_ai json_loads bedrock zombies =
     (if zombies = [] then (Inr zombies, [])
      else
        (case (case bedrock of
                 Inl e \<Rightarrow> (Inl e, [])
               | Inr invoke_model \<Rightarrow> try_models json_loads invoke_model zombies models_to_try) of
           (Inr res, out) \<Rightarrow> (Inr res, out)
         | (Inl e, out) \<Rightarrow>
             (Inr (annotate_all unknown_unavailable zombies), out @ [Print_ai_failed e])))"

section \<open>Presenters\<close>

subsection \<open>Display fields\<close>

text \<open>
  \<^verbatim>\<open>s.replace('_', ' ').title()\<close> on ASCII text (the resource types are two ASCII
  literals): a letter is upper case after a character that is not a letter and lower
  case after a letter.
\<close>

definition is_lower :: "char \<Rightarrow> bool" where
  "is_lower c = (97 \<le> (of_char c :: nat) \<and> (of_char c :: nat) \<le> 122)"

definition is_upper :: "char \<Rightarrow> bool" where
  "is_upper c = (65 \<le> (of_char c :: nat) \<and> (of_char c :: nat) \<le> 90)"

definition to_upper :: "char \<Rightarrow> char" where
  "to_upper c = (if is_lower c then char_of ((of_char c :: nat) - 32) else c)"

definition to_lower :: "char \<Rightarrow> char" where
  "to_lower c = (if is_upper c then char_of ((of_char c :: nat) + 32) else c)"

fun title_from :: "bool \<Rightarrow> string \<Rightarrow> string" where
  "title_from previous_is_cased [] = []"
| "title_from previous_is_cased (c # cs) =
     (if is_lower c then
        (if previous_is_cased then c else to_upper c) # title_from True cs
      else if is_upper c then
        (if previous_is_cased then to_lower c else c) # title_from True cs
      else c # title_from False cs)"

definition display_type :: "string \<Rightarrow> string" where
  "display_type t = title_from False (map (\<lambda>c. if c = CHR ''_'' then CHR '' '' else c) t)"

text \<open>
  \<^verbatim>\<open>risk_counts\<close>, a dictionary with the four keys \<^verbatim>\<open>Low\<close>, \<^verbatim>\<open>Medium\<close>, \<^verbatim>\<open>High\<close> and
  \<^verbatim>\<open>Unknown\<close>: keys are never added or removed, so it is a record of four counters.
\<close>

record risk_counts =
  Low :: nat
  Medium :: nat
  High :: nat
  Unknown :: nat

definition no_risks :: risk_counts where
  "no_risks = \<lparr>Low = 0, Medium = 0, High = 0, Unknown = 0\<rparr>"

text \<open>
  \<^verbatim>\<open>risk_counts[risk_score] += 1\<close>: the subscript raises \<^verbatim>\<open>KeyError\<close> for a value that
  is not one of the four keys and \<^verbatim>\<open>TypeError\<close> for a list or a \<^verbatim>\<open>dict\<close>, which cannot
  be hashed.
\<close>

definition count_risk :: "risk_counts \<Rightarrow> json \<Rightarrow> exn + risk_counts" where
  "count_risk counts risk =
     (case risk of
        JString k \<Rightarrow>
          (if k = ''Low'' then Inr (counts\<lparr>Low := Low counts + 1\<rparr>)
           else if k = ''Medium'' then Inr (counts\<lparr>Medium := Medium counts + 1\<rparr>)
           else if k = ''High'' then Inr (counts\<lparr>High := High counts + 1\<rparr>)
           else if k = ''Unknown'' then Inr (counts\<lparr>Unknown := Unknown counts + 1\<rparr>)
           else Inl KeyError)
      | JArray xs \<Rightarrow> Inl TypeError
      | JObject d \<Rightarrow> Inl TypeError
      | _ \<Rightarrow> Inl KeyError)"

text \<open>
  \<^verbatim>\<open>zombie.get('ai_analysis', {}).get('risk_score', 'Unknown')\<close> and the same for the
  reason: the defaults apply to a record with no \<^verbatim>\<open>ai_analysis\<close>.
\<close>

definition risk_of :: "'f zombie \<Rightarrow> json" where
  "risk_of z = (case ai_analysis z of None \<Rightarrow> JString ''Unknown'' | Some a \<Rightarrow> risk_score a)"

definition reason_of :: "'f zombie \<Rightarrow> json" where
  "reason_of z =
     (case ai_analysis z of None \<Rightarrow> JString ''No analysis available'' | Some a \<Rightarrow> reason a)"

definition risk_colors :: "(string \<times> string) list" where
  "risk_colors =
     [(''Low'', ''green''), (''Medium'', ''yellow''), (''High'', ''red''), (''Unknown'', ''dim'')]"

subsection \<open>Table\<close>

text \<open>
  The body of the loop of \<^verbatim>\<open>display_table\<close> on the state (\<^verbatim>\<open>total_cost\<close>,
  \<^verbatim>\<open>risk_counts\<close>, rows added). A reason that is not a string makes \<^verbatim>\<open>len\<close>, the
  concatenation or \<^verbatim>\<open>add_row\<close> raise; the model names that exception \<open>TypeError\<close>
  whatever its class.
\<close>

definition display_row ::
  "'f float_ops \<Rightarrow> 'f \<times> risk_counts \<times> 'f table_row list \<Rightarrow> 'f zombie \<Rightarrow>
   exn + ('f \<times> risk_counts \<times> 'f table_row list)" where
  "display_row ops st z =
     (case st of (total_cost, counts, rows) \<Rightarrow>
        (let cost = cost_estimate z;
             total_cost' = f_add ops total_cost cost;
             risk = risk_of z in
         case count_risk counts risk of
           Inl e \<Rightarrow> Inl e
         | Inr counts' \<Rightarrow>
             (case risk of
                JString rs \<Rightarrow>
                  (case reason_of z of
                     JString rn \<Rightarrow>
                       Inr (total_cost', counts',
                            rows @
                            [\<lparr>row_type = display_type (resource_type z),
                              row_id = resource_id z,
                              row_region = region z,
                              row_cost = cost,
                              row_risk = rs,
                              row_color = dict_get risk_colors rs ''dim'',
                              row_reason =
                                (if length rn > 57 then take 54 rn @ ''...'' else rn)\<rparr>])
                   | _ \<Rightarrow> Inl TypeError)
              | _ \<Rightarrow> Inl TypeError)))"

fun display_loop ::
  "'f float_ops \<Rightarrow> 'f \<times> risk_counts \<times> 'f table_row list \<Rightarrow> 'f zombie list \<Rightarrow>
   exn + ('f \<times> risk_counts \<times> 'f table_row list)" where
  "display_loop ops st [] = Inr st"
| "display_loop ops st (z # zs) =
     (case display_row ops st z of
        Inl e \<Rightarrow> Inl e
      | Inr st' \<Rightarrow> display_loop ops st' zs)"

text \<open>
  \<^verbatim>\<open>display_table\<close>. \<^verbatim>\<open>total_cost\<close> starts as the \<^verbatim>\<open>int\<close> 0, which the first addition
  converts. The table and the two summary lines are printed after the loop.
\<close>

definition display_table :: "'f float_ops \<Rightarrow> 'f zombie list \<Rightarrow> ('f, unit) run" where
  "display_table ops zombies =
     (if zombies = [] then (Inr (), [Print_no_zombies])
      else
        (case display_loop ops (f_of_int ops 0, no_risks, []) zombies of
           Inl e \<Rightarrow> (Inl e, [])
         | Inr (total_cost, counts, rows) \<Rightarrow>
             (Inr (),
              [Print_table rows,
               Print_total_cost total_cost,
               Print_risk_summary (Low counts) (Medium counts) (High counts)
                 (Unknown counts)])))"

subsection \<open>Markdown report\<close>

text \<open>
  The report is the list of its parts, each with the values formatted into it:
  the title with the time and the summary (number of resources, total cost); the risk
  breakdown; the table of resources (header and one row per resource: type, identifier,
  region, cost, risk, reason); the recommendations; the message of a clean account.
\<close>

datatype 'f md_part =
    Md_summary string nat 'f
  | Md_risk_breakdown nat nat nat nat
  | Md_resource_table "(string \<times> string \<times> string \<times> 'f \<times> json \<times> json) list"
  | Md_recommendations nat nat nat nat
  | Md_clean_account

text \<open>The loop that counts the risks of the report.\<close>

fun count_risks :: "risk_counts \<Rightarrow> 'f zombie list \<Rightarrow> exn + risk_counts" where
  "count_risks counts [] = Inr counts"
| "count_risks counts (z # zs) =
     (case count_risk counts (risk_of z) of
        Inl e \<Rightarrow> Inl e
      | Inr counts' \<Rightarrow> count_risks counts' zs)"

text \<open>\<^verbatim>\<open>sum(z.get('cost_estimate', 0) for z in zombies)\<close>: from the \<^verbatim>\<open>int\<close> 0, left to right.\<close>

definition sum_costs :: "'f float_ops \<Rightarrow> 'f zombie list \<Rightarrow> 'f" where
  "sum_costs ops zombies = foldl (f_add ops) (f_of_int ops 0) (map cost_estimate zombies)"

definition md_row :: "'f zombie \<Rightarrow> string \<times> string \<times> string \<times> 'f \<times> json \<times> json" where
  "md_row z =
     (display_type (resource_type z), resource_id z, region z, cost_estimate z,
      risk_of z, reason_of z)"

text \<open>
  \<^verbatim>\<open>generate_markdown_report\<close>: the result is the text written to the file. \<open>timestamp\<close>
  is the formatted time of the call.
\<close>

definition generate_markdown_report ::
  "'f float_ops \<Rightarrow> string \<Rightarrow> 'f zombie list \<Rightarrow> string \<Rightarrow> ('f, 'f md_part list) run" where
  "generate_markdown_report ops timestamp zombies filename =
     (let report = [Md_summary timestamp (length zombies) (sum_costs ops zombies)] in
      if zombies \<noteq> [] then
        (case count_risks no_risks zombies of
           Inl e \<Rightarrow> (Inl e, [])
         | Inr counts \<Rightarrow>
             (Inr (report @
                   [Md_risk_breakdown (Low counts) (Medium counts) (High counts)
                      (Unknown counts),
                    Md_resource_table (map md_row zombies),
                    Md_recommendations (Low counts) (Medium counts) (High counts)
                      (Unknown counts)]),
              [Print_report_saved filename]))
      else (Inr (report @ [Md_clean_account]), [Print_report_saved filename]))"

section \<open>Notions used in the statements\<close>

text \<open>The regions announced by \<^verbatim>\<open>Scanning region\<close> lines, in order.\<close>

definition scanned :: "'f event list \<Rightarrow> string list" where
  "scanned out = concat (map (\<lambda>e. case e of Echo_scanning r \<Rightarrow> [r] | _ \<Rightarrow> []) out)"

text \<open>The identifiers announced by \<^verbatim>\<open>Trying model\<close> lines, one per request sent, in order.\<close>

definition requests_sent :: "'f event list \<Rightarrow> string list" where
  "requests_sent out =
     concat (map (\<lambda>e. case e of Print_trying_model m \<Rightarrow> [m] | _ \<Rightarrow> []) out)"

text \<open>
  What a region contributes: the records of the volumes (of the idle addresses) the query
  returned, and nothing when the query failed.
\<close>

definition volumes_found ::
  "'f float_ops \<Rightarrow> (string \<Rightarrow> exn + volume list) \<Rightarrow> string \<Rightarrow> 'f zombie list" where
  "volumes_found ops dv r =
     (case dv r of Inr vs \<Rightarrow> map (volume_record ops r) vs | Inl e \<Rightarrow> [])"

definition ips_found ::
  "'f float_ops \<Rightarrow> (string \<Rightarrow> exn + address list) \<Rightarrow> string \<Rightarrow> 'f zombie list" where
  "ips_found ops da r =
     (case da r of Inr as \<Rightarrow> map (eip_record ops r) (filter idle as) | Inl e \<Rightarrow> [])"

text \<open>On the regions \<open>rs\<close>, the query \<open>q\<close> raises nothing but \<^verbatim>\<open>ClientError\<close>.\<close>

definition only_client_errors :: "(string \<Rightarrow> exn + 'a) \<Rightarrow> string list \<Rightarrow> bool" where
  "only_client_errors q rs =
     list_all (\<lambda>r. case q r of Inl (ClientError c) \<Rightarrow> True | Inl e \<Rightarrow> False | Inr x \<Rightarrow> True) rs"

text \<open>A record with its \<^verbatim>\<open>ai_analysis\<close> key removed: everything the analyzer leaves alone.\<close>

definition without_analysis :: "'f zombie \<Rightarrow> 'f zombie" where
  "without_analysis z = z\<lparr>ai_analysis := None\<rparr>"

text \<open>
  The answer for the identifier \<open>m\<close> is one the loop passes over: a \<^verbatim>\<open>ClientError\<close>
  whose code is one of the three of the \<^verbatim>\<open>except\<close> clause.
\<close>

definition model_unavailable :: "(string \<Rightarrow> exn + string) \<Rightarrow> string \<Rightarrow> bool" where
  "model_unavailable invoke_model m =
     (case invoke_model m of
        Inl (ClientError code) \<Rightarrow> code \<in> set unavailable_codes
      | _ \<Rightarrow> False)"


text \<open>
  A record the presenters can show: its risk is one of the four keys of \<^verbatim>\<open>risk_counts\<close>
  and its reason is a string. \<open>risk_total k zs\<close> is the number of records of \<open>zs\<close> whose
  risk is \<open>k\<close>.
\<close>

definition presentable :: "'f zombie \<Rightarrow> bool" where
  "presentable z =
     (case risk_of z of
        JString k \<Rightarrow>
          k \<in> set [''Low'', ''Medium'', ''High'', ''Unknown'']
          \<and> (case reason_of z of JString s \<Rightarrow> True | _ \<Rightarrow> False)
      | _ \<Rightarrow> False)"

definition risk_total :: "string \<Rightarrow> 'f zombie list \<Rightarrow> nat" where
  "risk_total k zs = length (filter (\<lambda>z. risk_of z = JString k) zs)"

section \<open>Examples\<close>

text \<open>
  One available volume of 100 GB and three addresses, of which the first is idle, the
  second is attached to an instance and the third to a network interface.
\<close>

definition example_volume :: volume where
  "example_volume =
     \<lparr>VolumeId = ''vol-0a1b2c'', Size = 100, VolumeType = ''gp3'', VolumeTags = None\<rparr>"

definition example_idle :: address where
  "example_idle =
     \<lparr>AllocationId = ''eipalloc-01'', PublicIp = ''198.51.100.1'', InstanceId = None,
      NetworkInterfaceId = None, AddressTags = None\<rparr>"

definition example_on_instance :: address where
  "example_on_instance =
     \<lparr>AllocationId = ''eipalloc-02'', PublicIp = ''198.51.100.2'', InstanceId = Some ''i-0123'',
      NetworkInterfaceId = None, AddressTags = None\<rparr>"

definition example_on_interface :: address where
  "example_on_interface =
     \<lparr>AllocationId = ''eipalloc-03'', PublicIp = ''198.51.100.3'', InstanceId = None,
      NetworkInterfaceId = Some ''eni-0123'', AddressTags = Some [(''Name'', ''nat'')]\<rparr>"

text \<open>
  Two regions: the volume query fails in the first with a \<^verbatim>\<open>ClientError\<close> and returns
  the volume in the second; the address query returns the three addresses in the first
  and none in the second.
\<close>

definition example_describe_volumes :: "string \<Rightarrow> exn + volume list" where
  "example_describe_volumes r =
     (if r = ''eu-west-1'' then Inl (ClientError ''UnauthorizedOperation'')
      else Inr [example_volume])"

definition example_describe_addresses :: "string \<Rightarrow> exn + address list" where
  "example_describe_addresses r =
     (if r = ''eu-west-1'' then Inr [example_idle, example_on_instance, example_on_interface]
      else Inr [])"

text \<open>The two resources found there, as the scanners record them.\<close>

definition example_zombies :: "rat zombie list" where
  "example_zombies =
     [eip_record exact_ops ''eu-west-1'' example_idle,
      volume_record exact_ops ''us-east-1'' example_volume]"

text \<open>
  Answers of the inference service. \<open>example_loads\<close> is \<^verbatim>\<open>json.loads\<close> on the four
  texts below and raises on every other text. The first text is the body of an answer
  whose text is \<^verbatim>\<open>not json\<close>; the others are the JSON part of a model's text: two
  entries with the risks Low and High, the same with no \<^verbatim>\<open>risk_score\<close> in the second
  entry, and one entry with a risk that is not one of the four the presenters count.
\<close>

definition example_not_json_body :: string where
  \<open>example_not_json_body = ''{"content": [{"type": "text", "text": "not json"}]}''\<close>

definition example_not_json_envelope :: json where
  "example_not_json_envelope =
     JObject [(''content'',
       JArray [JObject [(''type'', JString ''text''), (''text'', JString ''not json'')]])]"

definition example_low_high_json :: string where
  \<open>example_low_high_json =
     ''{"analyses": [{"resource_number": 1, "risk_score": "Low", "reason": "Test address"}, {"resource_number": 2, "risk_score": "High", "reason": "Large volume"}]}''\<close>

definition example_low_high :: json where
  "example_low_high =
     JObject [(''analyses'', JArray
       [JObject [(''resource_number'', JInt 1), (''risk_score'', JString ''Low''),
                 (''reason'', JString ''Test address'')],
        JObject [(''resource_number'', JInt 2), (''risk_score'', JString ''High''),
                 (''reason'', JString ''Large volume'')]])]"

definition example_missing_key_json :: string where
  \<open>example_missing_key_json =
     ''{"analyses": [{"resource_number": 1, "risk_score": "Low", "reason": "Test address"}, {"resource_number": 2, "reason": "Large volume"}]}''\<close>

definition example_missing_key :: json where
  "example_missing_key =
     JObject [(''analyses'', JArray
       [JObject [(''resource_number'', JInt 1), (''risk_score'', JString ''Low''),
                 (''reason'', JString ''Test address'')],
        JObject [(''resource_number'', JInt 2), (''reason'', JString ''Large volume'')]])]"

definition example_critical_json :: string where
  \<open>example_critical_json =
     ''{"analyses": [{"resource_number": 1, "risk_score": "Critical", "reason": "Production address"}]}''\<close>

definition example_critical :: json where
  "example_critical =
     JObject [(''analyses'', JArray
       [JObject [(''resource_number'', JInt 1), (''risk_score'', JString ''Critical''),
                 (''reason'', JString ''Production address'')]])]"

definition example_loads :: "string \<Rightarrow> json option" where
  "example_loads =
     map_of
       [(example_not_json_body, example_not_json_envelope),
        (example_low_high_json, example_low_high),
        (example_missing_key_json, example_missing_key),
        (example_critical_json, example_critical)]"

text \<open>The text of a model that writes around the JSON part.\<close>

definition example_answer :: "string \<Rightarrow> json" where
  "example_answer j = JString (''Here is the analysis: '' @ j @ '' Review before deleting.'')"

text \<open>
  Two services: one refuses the first identifier and answers \<^verbatim>\<open>not json\<close> to the
  others; one refuses the first identifier and throttles the others.
\<close>

definition example_invoke :: "string \<Rightarrow> exn + string" where
  "example_invoke m =
     (if m = ''anthropic.claude-3-haiku-20240307-v1:0''
      then Inl (ClientError ''AccessDeniedException'')
      else Inr example_not_json_body)"


section \<open>Cost estimator: properties\<close>



section \<open>Scanners: properties\<close>

text \<open>
  Claim C3. When the address query of a region returns the addresses \<open>as\<close>, the scanner
  returns one record per address that has neither an \<^verbatim>\<open>InstanceId\<close> nor a
  \<^verbatim>\<open>NetworkInterfaceId\<close>, in the order of the answer, and no other record: the record of
  every idle address is in the output and every record of the output is the record of an
  idle address. The cost estimate of each is the constant 3.65.
\<close>

theorem idle_elastic_ips_iff:
  assumes "describe_addresses r = Inr as"
  shows "\<exists>out. find_idle_elastic_ips ops describe_addresses r = (Inr out, [])
     \<and> out = map (eip_record ops r) (filter idle as)
     \<and> (\<forall>a \<in> set as. idle a \<longrightarrow> eip_record ops r a \<in> set out)
     \<and> (\<forall>z \<in> set out. \<exists>a \<in> set as. idle a \<and> z = eip_record ops r a)
     \<and> (\<forall>a. idle a = (InstanceId a = None \<and> NetworkInterfaceId a = None))
     \<and> (\<forall>z \<in> set out. cost_estimate z = f_lit ops (365 / 100))"
  using assms
  by (auto simp: find_idle_elastic_ips_def idle_def eip_record_def estimate_eip_cost_def)

theorem idle_elastic_ips_iff_witness:
  "find_idle_elastic_ips exact_ops example_describe_addresses ''eu-west-1''
     = (Inr [eip_record exact_ops ''eu-west-1'' example_idle], [])
   \<and> idle example_idle \<and> \<not> idle example_on_instance \<and> \<not> idle example_on_interface
   \<and> cost_estimate (eip_record exact_ops ''eu-west-1'' example_idle) = 365 / 100"
  using idle_elastic_ips_iff [of example_describe_addresses "''eu-west-1''"
      "[example_idle, example_on_instance, example_on_interface]" exact_ops]
  by (simp add: example_describe_addresses_def idle_def example_idle_def
      example_on_instance_def example_on_interface_def eip_record_def estimate_eip_cost_def
      exact_ops_def)

lemma scanned_simps [simp]:
  "scanned [] = []"
  "scanned (Echo_scanning r # out) = r # scanned out"
  "scanned (Echo_error_in_region r e # out) = scanned out"
  "scanned (out @ out') = scanned out @ scanned out'"
  by (simp_all add: scanned_def)

lemma find_unattached_volumes_client_error:
  "describe_volumes r = Inl (ClientError code) \<Longrightarrow>
   find_unattached_volumes ops describe_volumes r
     = (Inr [], [Echo_error_in_region r (ClientError code)])"
  by (simp add: find_unattached_volumes_def)

text \<open>Any other exception of the query leaves the scanner.\<close>

lemma find_unattached_volumes_other_error:
  "describe_volumes r = Inl e \<Longrightarrow> \<forall>code. e \<noteq> ClientError code \<Longrightarrow>
   find_unattached_volumes ops describe_volumes r = (Inl e, [])"
  by (cases e) (simp_all add: find_unattached_volumes_def)

text \<open>The result of the hunt depends on the volume query through the scanner's result only.\<close>

lemma hunt_loop_fst_cong:
  "(\<And>r. fst (find_unattached_volumes ops dv r) = fst (find_unattached_volumes ops dv' r)) \<Longrightarrow>
   fst (hunt_loop ops dv da acc rs) = fst (hunt_loop ops dv' da acc rs)"
proof (induction rs arbitrary: acc)
  case Nil
  then show ?case by simp
next
  case (Cons r rs)
  have same: "fst (find_unattached_volumes ops dv r) = fst (find_unattached_volumes ops dv' r)"
    by (rule Cons.prems)
  obtain x1 o1 where v: "find_unattached_volumes ops dv r = (x1, o1)"
    by (cases "find_unattached_volumes ops dv r")
  obtain x2 o2 where v': "find_unattached_volumes ops dv' r = (x2, o2)"
    by (cases "find_unattached_volumes ops dv' r")
  from same v v' have x: "x2 = x1" by simp
  have step: "fst (hunt_loop ops dv da acc' rs) = fst (hunt_loop ops dv' da acc' rs)" for acc'
    by (rule Cons.IH [OF Cons.prems])
  show ?case
  proof (cases x1)
    case (Inl e)
    then show ?thesis by (simp add: v v' x)
  next
    case (Inr volumes)
    obtain y o2 where i: "find_idle_elastic_ips ops da r = (y, o2)"
      by (cases "find_idle_elastic_ips ops da r")
    show ?thesis
    proof (cases y)
      case (Inl e)
      then show ?thesis by (simp add: v v' x Inr i)
    next
      case ips: (Inr ips)
      obtain z o3 where l: "hunt_loop ops dv da (acc @ volumes @ ips) rs = (z, o3)"
        by (cases "hunt_loop ops dv da (acc @ volumes @ ips) rs")
      obtain z' o3' where l': "hunt_loop ops dv' da (acc @ volumes @ ips) rs = (z', o3')"
        by (cases "hunt_loop ops dv' da (acc @ volumes @ ips) rs")
      from step [of "acc @ volumes @ ips"] l l' have "z' = z" by simp
      then show ?thesis by (simp add: v v' x Inr i ips l l')
    qed
  qed
qed

text \<open>When no query raises anything but \<^verbatim>\<open>ClientError\<close>, every region is scanned.\<close>

lemma hunt_loop_all:
  "only_client_errors dv rs \<Longrightarrow> only_client_errors da rs \<Longrightarrow>
   \<exists>out. hunt_loop ops dv da acc rs
           = (Inr (acc @ concat (map (\<lambda>r. volumes_found ops dv r @ ips_found ops da r) rs)), out)
        \<and> scanned out = rs"
proof (induction rs arbitrary: acc)
  case Nil
  then show ?case by simp
next
  case (Cons r rs)
  from Cons.prems have rest: "only_client_errors dv rs" "only_client_errors da rs"
    by (simp_all add: only_client_errors_def)
  from Cons.prems(1) obtain o1 where
    v: "find_unattached_volumes ops dv r = (Inr (volumes_found ops dv r), o1)" "scanned o1 = []"
    by (auto simp: only_client_errors_def find_unattached_volumes_def volumes_found_def
        split: sum.splits exn.splits)
  from Cons.prems(2) obtain o2 where
    i: "find_idle_elastic_ips ops da r = (Inr (ips_found ops da r), o2)" "scanned o2 = []"
    by (auto simp: only_client_errors_def find_idle_elastic_ips_def ips_found_def
        split: sum.splits exn.splits)
  from Cons.IH [OF rest, of "acc @ volumes_found ops dv r @ ips_found ops da r"]
  obtain o3 where
    l: "hunt_loop ops dv da (acc @ volumes_found ops dv r @ ips_found ops da r) rs
          = (Inr ((acc @ volumes_found ops dv r @ ips_found ops da r)
                  @ concat (map (\<lambda>r. volumes_found ops dv r @ ips_found ops da r) rs)), o3)"
       "scanned o3 = rs"
    by blast
  show ?case
    by (simp add: v i l)
qed

text \<open>
  Claim C7. When the volume query of a region \<open>R\<close> fails with a \<^verbatim>\<open>ClientError\<close>, the
  volume scanner logs the error and returns the empty list for \<open>R\<close>. The hunt then
  returns what it would return had the query found no volume in \<open>R\<close>, whatever the
  other queries do. When no query raises anything but \<^verbatim>\<open>ClientError\<close>, the hunt scans
  every region and returns, region by region, the volumes found (none for \<open>R\<close>) and
  the idle addresses found.
\<close>

theorem volume_scan_failure_isolated:
  assumes "describe_volumes R = Inl (ClientError code)"
  shows "find_unattached_volumes ops describe_volumes R
           = (Inr [], [Echo_error_in_region R (ClientError code)])
       \<and> fst (hunt_zombies ops describe_volumes describe_addresses self_regions regions)
           = fst (hunt_zombies ops (describe_volumes(R := Inr [])) describe_addresses
                    self_regions regions)
       \<and> (\<forall>rs. only_client_errors describe_volumes rs
                \<and> only_client_errors describe_addresses rs \<longrightarrow>
            (\<exists>out. hunt_zombies ops describe_volumes describe_addresses self_regions (Some rs)
                     = (Inr (concat (map (\<lambda>r. (if r = R then []
                                                else volumes_found ops describe_volumes r)
                                               @ ips_found ops describe_addresses r) rs)), out)
                  \<and> scanned out = rs))"
proof -
  have 1: "find_unattached_volumes ops describe_volumes R
           = (Inr [], [Echo_error_in_region R (ClientError code)])"
    using assms by (rule find_unattached_volumes_client_error)
  have "\<And>r. fst (find_unattached_volumes ops describe_volumes r)
           = fst (find_unattached_volumes ops (describe_volumes(R := Inr [])) r)"
    using assms by (simp add: find_unattached_volumes_def)
  then have 2: "fst (hunt_zombies ops describe_volumes describe_addresses self_regions regions)
           = fst (hunt_zombies ops (describe_volumes(R := Inr [])) describe_addresses
                    self_regions regions)"
    unfolding hunt_zombies_def by (rule hunt_loop_fst_cong)
  have vf: "\<And>r. volumes_found ops describe_volumes r
             = (if r = R then [] else volumes_found ops describe_volumes r)"
    using assms by (simp add: volumes_found_def)
  have 3: "\<exists>out. hunt_zombies ops describe_volumes describe_addresses self_regions (Some rs)
                     = (Inr (concat (map (\<lambda>r. (if r = R then []
                                                else volumes_found ops describe_volumes r)
                                               @ ips_found ops describe_addresses r) rs)), out)
                  \<and> scanned out = rs"
    if "only_client_errors describe_volumes rs" "only_client_errors describe_addresses rs" for rs
    using hunt_loop_all [OF that, of ops "[]"] vf
    by (simp add: hunt_zombies_def)
  from 1 2 3 show ?thesis by blast
qed

theorem volume_scan_failure_isolated_witness:
  "example_describe_volumes ''eu-west-1'' = Inl (ClientError ''UnauthorizedOperation'')
   \<and> find_unattached_volumes exact_ops example_describe_volumes ''eu-west-1''
       = (Inr [], [Echo_error_in_region ''eu-west-1'' (ClientError ''UnauthorizedOperation'')])
   \<and> only_client_errors example_describe_volumes [''eu-west-1'', ''us-east-1'']
   \<and> only_client_errors example_describe_addresses [''eu-west-1'', ''us-east-1'']
   \<and> fst (hunt_zombies exact_ops example_describe_volumes example_describe_addresses []
            (Some [''eu-west-1'', ''us-east-1''])) = Inr example_zombies"
proof -
  have h: "example_describe_volumes ''eu-west-1'' = Inl (ClientError ''UnauthorizedOperation'')"
    by (simp add: example_describe_volumes_def)
  have c: "only_client_errors example_describe_volumes [''eu-west-1'', ''us-east-1'']"
    "only_client_errors example_describe_addresses [''eu-west-1'', ''us-east-1'']"
    by (simp_all add: only_client_errors_def example_describe_volumes_def
        example_describe_addresses_def)
  from volume_scan_failure_isolated [of example_describe_volumes "''eu-west-1''"
      "''UnauthorizedOperation''" exact_ops example_describe_addresses "[]"
      "Some [''eu-west-1'', ''us-east-1'']", OF h] c
  obtain out where
    "find_unattached_volumes exact_ops example_describe_volumes ''eu-west-1''
       = (Inr [], [Echo_error_in_region ''eu-west-1'' (ClientError ''UnauthorizedOperation'')])"
    "hunt_zombies exact_ops example_describe_volumes example_describe_addresses []
            (Some [''eu-west-1'', ''us-east-1''])
       = (Inr (concat (map (\<lambda>r. (if r = ''eu-west-1'' then []
                                  else volumes_found exact_ops example_describe_volumes r)
                                 @ ips_found exact_ops example_describe_addresses r)
                         [''eu-west-1'', ''us-east-1''])), out)"
    by blast
  then show ?thesis
    using h c
    by (simp add: volumes_found_def ips_found_def example_describe_volumes_def
        example_describe_addresses_def example_zombies_def idle_def example_idle_def
        example_on_instance_def example_on_interface_def)
qed

section \<open>AI risk analyzer: properties\<close>

subsection \<open>The merge changes nothing but the annotations\<close>

lemma without_analysis_update [simp]:
  "without_analysis (z\<lparr>ai_analysis := a\<rparr>) = without_analysis z"
  by (simp add: without_analysis_def)

lemma update_without_analysis [simp]:
  "(without_analysis z)\<lparr>ai_analysis := a\<rparr> = z\<lparr>ai_analysis := a\<rparr>"
  by (simp add: without_analysis_def)

lemma merge_entry_keeps:
  assumes "merge_entry zs a = Inr zs'"
  shows "map without_analysis zs' = map without_analysis zs"
  using assms
  by (auto simp: merge_entry_def in_bounds_def map_update list_update_same_conv
      split: sum.splits if_splits pynum.splits)

lemma merge_loop_keeps:
  "merge_loop zs as = Inr zs' \<Longrightarrow> map without_analysis zs' = map without_analysis zs"
proof (induction as arbitrary: zs)
  case Nil
  then show ?case by simp
next
  case (Cons a as)
  then show ?case
    by (auto split: sum.splits dest: merge_entry_keeps)
qed

lemma merge_loop_failure_keeps:
  "merge_loop zs as = Inl (e, zs') \<Longrightarrow> map without_analysis zs' = map without_analysis zs"
proof (induction as arbitrary: zs)
  case Nil
  then show ?case by simp
next
  case (Cons a as)
  then show ?case
    by (auto split: sum.splits dest: merge_entry_keeps)
qed

lemma add_default_keeps: "map without_analysis (add_default zs) = map without_analysis zs"
  by (simp add: add_default_def split: option.splits)

lemma add_default_annotated: "z \<in> set (add_default zs) \<Longrightarrow> ai_analysis z \<noteq> None"
  by (auto simp: add_default_def split: option.splits)

lemma annotate_all_keeps: "map without_analysis (annotate_all a zs) = map without_analysis zs"
  by (simp add: annotate_all_def)

lemma annotate_all_annotated: "z \<in> set (annotate_all a zs) \<Longrightarrow> ai_analysis z = Some a"
  by (auto simp: annotate_all_def)

lemma annotate_all_cong:
  assumes "map without_analysis zs' = map without_analysis zs"
  shows "annotate_all a zs' = annotate_all a zs"
proof -
  have "annotate_all a xs = map (\<lambda>z. z\<lparr>ai_analysis := Some a\<rparr>) (map without_analysis xs)" for xs :: "'a zombie list"
    by (simp add: annotate_all_def)
  then show ?thesis by (simp only: assms)
qed

lemma merge_try_keeps:
  "merge_try jl zs t = Inr zs' \<Longrightarrow> map without_analysis zs' = map without_analysis zs"
  by (auto simp: merge_try_def add_default_keeps split: sum.splits prod.splits dest: merge_loop_keeps)

lemma merge_try_annotated:
  "merge_try jl zs t = Inr zs' \<Longrightarrow> z \<in> set zs' \<Longrightarrow> ai_analysis z \<noteq> None"
  by (auto simp: merge_try_def split: sum.splits prod.splits dest: add_default_annotated)

lemma merge_try_failure_keeps:
  "merge_try jl zs t = Inl (e, zs') \<Longrightarrow> map without_analysis zs' = map without_analysis zs"
  by (auto simp: merge_try_def split: sum.splits prod.splits dest: merge_loop_failure_keeps)

lemma merge_analysis_failure:
  "merge_try jl zs t = Inl (e, zs') \<Longrightarrow>
   merge_analysis jl zs t = (Inr (annotate_all unknown_failed_to_parse zs), [Echo_error_parsing e])"
  by (simp add: merge_analysis_def annotate_all_cong [OF merge_try_failure_keeps])

lemma merge_analysis_success:
  "merge_try jl zs t = Inr zs' \<Longrightarrow> merge_analysis jl zs t = (Inr zs', [])"
  by (simp add: merge_analysis_def)

lemma merge_analysis_returns:
  "\<exists>res out. merge_analysis jl zs t = (Inr res, out)
     \<and> map without_analysis res = map without_analysis zs
     \<and> (\<forall>z \<in> set res. ai_analysis z \<noteq> None)
     \<and> requests_sent out = []"
proof (cases "merge_try jl zs t")
  case (Inl p)
  obtain e zs' where "p = (e, zs')" by (cases p)
  with Inl show ?thesis
    by (auto simp: merge_analysis_failure annotate_all_keeps requests_sent_def dest: annotate_all_annotated)
next
  case (Inr zs')
  then show ?thesis
    by (auto simp: merge_analysis_success requests_sent_def dest: merge_try_keeps merge_try_annotated)
qed

subsection \<open>What the merge loop does to a record\<close>










subsection \<open>A failure of the merge\<close>

text \<open>
  Claim C10. When the loop fails at some entry after earlier entries were applied
  (\<open>zs'\<close> is the list at that moment), the handler overwrites the annotation of every
  record of \<open>zs'\<close>: the result is the input with every record annotated
  \<open>unknown_failed_to_parse\<close>, and nothing of \<open>zs'\<close> that the input did not have is left.
\<close>

theorem merge_all_or_nothing:
  assumes "extract_json json_loads t = Inr data"
    and "method_get data ''analyses'' (JArray []) = Inr v"
    and "py_iter v = Inr as"
    and "merge_loop zs as = Inl (e, zs')"
  shows "merge_analysis json_loads zs t
           = (Inr (annotate_all unknown_failed_to_parse zs'), [Echo_error_parsing e])
     \<and> annotate_all unknown_failed_to_parse zs' = annotate_all unknown_failed_to_parse zs
     \<and> length zs' = length zs
     \<and> (\<forall>i < length zs.
           annotate_all unknown_failed_to_parse zs' ! i
             = (zs ! i)\<lparr>ai_analysis := Some unknown_failed_to_parse\<rparr>)
     \<and> unknown_failed_to_parse =
         \<lparr>risk_score = JString ''Unknown'', reason = JString ''Failed to parse AI analysis''\<rparr>"
proof -
  from assms have t: "merge_try json_loads zs t = Inl (e, zs')"
    by (simp add: merge_try_def)
  then have 1: "merge_analysis json_loads zs t
           = (Inr (annotate_all unknown_failed_to_parse zs'), [Echo_error_parsing e])"
    by (simp add: merge_analysis_def)
  from merge_try_failure_keeps [OF t]
  have k: "map without_analysis zs' = map without_analysis zs" .
  then have 2: "annotate_all unknown_failed_to_parse zs' = annotate_all unknown_failed_to_parse zs"
    by (rule annotate_all_cong)
  from k have 3: "length zs' = length zs" by (rule map_eq_imp_length_eq)
  have 4: "annotate_all unknown_failed_to_parse zs' ! i
             = (zs ! i)\<lparr>ai_analysis := Some unknown_failed_to_parse\<rparr>" if "i < length zs" for i
    using that unfolding 2 by (simp add: annotate_all_def)
  from 1 2 3 4 show ?thesis
    by (simp add: unknown_failed_to_parse_def [symmetric])
qed

text \<open>
  The second entry has no \<^verbatim>\<open>risk_score\<close>: the loop raises \<^verbatim>\<open>KeyError\<close> with record 1
  tagged Low, and the result has both records annotated \<open>unknown_failed_to_parse\<close>.
\<close>

theorem merge_all_or_nothing_witness:
  "extract_json example_loads (example_answer example_missing_key_json) = Inr example_missing_key
   \<and> merge_try example_loads example_zombies (example_answer example_missing_key_json)
       = Inl (KeyError,
              [(example_zombies ! 0)\<lparr>ai_analysis :=
                  Some \<lparr>risk_score = JString ''Low'', reason = JString ''Test address''\<rparr>\<rparr>,
               example_zombies ! 1])
   \<and> merge_analysis example_loads example_zombies (example_answer example_missing_key_json)
       = (Inr [(example_zombies ! 0)\<lparr>ai_analysis := Some unknown_failed_to_parse\<rparr>,
               (example_zombies ! 1)\<lparr>ai_analysis := Some unknown_failed_to_parse\<rparr>],
          [Echo_error_parsing KeyError])"
proof -
  let ?as = "[JObject [(''resource_number'', JInt 1), (''risk_score'', JString ''Low''),
                 (''reason'', JString ''Test address'')],
        JObject [(''resource_number'', JInt 2), (''reason'', JString ''Large volume'')]]"
  let ?partial = "[(example_zombies ! 0)\<lparr>ai_analysis :=
                  Some \<lparr>risk_score = JString ''Low'', reason = JString ''Test address''\<rparr>\<rparr>,
               example_zombies ! 1]"
  have x: "extract_json example_loads (example_answer example_missing_key_json)
             = Inr example_missing_key"
    by (simp add: extract_json_def example_answer_def example_missing_key_json_def py_rfind_def
        py_slice_def example_loads_def example_not_json_body_def example_low_high_json_def)
  have g: "method_get example_missing_key ''analyses'' (JArray []) = Inr (JArray ?as)"
    by (simp add: method_get_def example_missing_key_def dict_get_def)
  have i: "py_iter (JArray ?as) = Inr ?as"
    by (simp add: py_iter_def)
  have l: "merge_loop example_zombies ?as = Inl (KeyError, ?partial)"
    by (simp add: example_zombies_def merge_entry_def subscript_key_def minus_one_def
        in_bounds_def)
  have t: "merge_try example_loads example_zombies (example_answer example_missing_key_json)
             = Inl (KeyError, ?partial)"
    by (simp add: merge_try_def x g i l del: merge_loop.simps)
  from merge_all_or_nothing [OF x g i l] x t show ?thesis
    by (simp add: annotate_all_def example_zombies_def)
qed

lemma extract_json_fails:
  assumes "py_find s (CHR ''{'') = - 1 \<or> py_rfind s (CHR ''}'') = - 1
     \<or> jl (py_slice s (py_find s (CHR ''{'')) (py_rfind s (CHR ''}'') + 1)) = None"
  shows "\<exists>e. extract_json jl (JString s) = Inl e"
  using assms by (auto simp: extract_json_def Let_def split: option.splits)

subsection \<open>Model selection\<close>

lemma requests_sent_simps [simp]:
  "requests_sent [] = []"
  "requests_sent (Print_trying_model m # out) = m # requests_sent out"
  "requests_sent (Print_used_model m # out) = requests_sent out"
  "requests_sent (Print_model_not_available m c # out) = requests_sent out"
  "requests_sent (Print_ai_failed e # out) = requests_sent out"
  "requests_sent (out @ out') = requests_sent out @ requests_sent out'"
  by (simp_all add: requests_sent_def)

lemma response_text_not_client_error: "response_text jl body \<noteq> Inl (ClientError c)"
  by (auto simp: response_text_def subscript_key_def subscript_index_def
      split: option.splits sum.splits json.splits if_splits)

lemma attempt_raises:
  "invoke_model m = Inl e \<Longrightarrow> attempt jl invoke_model zs m = (Inl e, [Print_trying_model m])"
  by (simp add: attempt_def)

lemma attempt_unreadable:
  "invoke_model m = Inr body \<Longrightarrow> response_text jl body = Inl e \<Longrightarrow>
   attempt jl invoke_model zs m = (Inl e, [Print_trying_model m])"
  by (simp add: attempt_def)

lemma attempt_answer:
  "invoke_model m = Inr body \<Longrightarrow> response_text jl body = Inr t \<Longrightarrow>
   attempt jl invoke_model zs m
     = (fst (merge_analysis jl zs t),
        [Print_trying_model m, Print_used_model m] @ snd (merge_analysis jl zs t))"
  by (simp add: attempt_def split: prod.splits)

lemma attempt_requests: "requests_sent (snd (attempt jl invoke_model zs m)) = [m]"
proof (cases "invoke_model m")
  case (Inl e)
  then show ?thesis by (simp add: attempt_raises)
next
  case (Inr body)
  show ?thesis
  proof (cases "response_text jl body")
    case (Inl e)
    with Inr show ?thesis by (simp add: attempt_unreadable)
  next
    case t: (Inr t)
    obtain res out where "merge_analysis jl zs t = (Inr res, out)" "requests_sent out = []"
      using merge_analysis_returns [of jl zs t] by blast
    with Inr t show ?thesis by (simp add: attempt_answer)
  qed
qed

lemma attempt_client_error:
  "fst (attempt jl invoke_model zs m) = Inl (ClientError c) \<longleftrightarrow> invoke_model m = Inl (ClientError c)"
proof (cases "invoke_model m")
  case (Inl e)
  then show ?thesis by (simp add: attempt_raises)
next
  case (Inr body)
  show ?thesis
  proof (cases "response_text jl body")
    case (Inl e)
    with Inr response_text_not_client_error [of jl body c] show ?thesis
      by (simp add: attempt_unreadable)
  next
    case t: (Inr t)
    obtain res out where "merge_analysis jl zs t = (Inr res, out)"
      using merge_analysis_returns [of jl zs t] by blast
    with Inr t show ?thesis by (simp add: attempt_answer)
  qed
qed

lemma try_models_unavailable:
  assumes "model_unavailable invoke_model m"
  shows "fst (try_models jl invoke_model zs (m # ms)) = fst (try_models jl invoke_model zs ms)
       \<and> requests_sent (snd (try_models jl invoke_model zs (m # ms)))
           = m # requests_sent (snd (try_models jl invoke_model zs ms))"
proof -
  from assms obtain c where c: "invoke_model m = Inl (ClientError c)" "c \<in> set unavailable_codes"
    by (auto simp: model_unavailable_def split: sum.splits exn.splits)
  then show ?thesis
    by (simp add: attempt_raises split: prod.splits)
qed

lemma try_models_stop:
  assumes "\<not> model_unavailable invoke_model m"
  shows "try_models jl invoke_model zs (m # ms) = attempt jl invoke_model zs m"
proof -
  obtain x out where a: "attempt jl invoke_model zs m = (x, out)"
    by (cases "attempt jl invoke_model zs m")
  show ?thesis
  proof (cases x)
    case (Inr res)
    with a show ?thesis by simp
  next
    case (Inl e)
    show ?thesis
    proof (cases e)
      case (ClientError c)
      with a Inl attempt_client_error [of jl invoke_model zs m c]
      have "invoke_model m = Inl (ClientError c)" by simp
      with assms have "c \<notin> set unavailable_codes" by (simp add: model_unavailable_def)
      with a Inl ClientError show ?thesis by simp
    qed (use a Inl in simp_all)
  qed
qed

lemma try_models_first:
  "fst (try_models jl invoke_model zs ms)
     = (case dropWhile (model_unavailable invoke_model) ms of
          [] \<Rightarrow> Inl NoModelsAvailable
        | m # rest \<Rightarrow> fst (attempt jl invoke_model zs m))
   \<and> requests_sent (snd (try_models jl invoke_model zs ms))
       = takeWhile (model_unavailable invoke_model) ms
         @ take 1 (dropWhile (model_unavailable invoke_model) ms)"
proof (induction ms)
  case Nil
  then show ?case by simp
next
  case (Cons m ms)
  show ?case
  proof (cases "model_unavailable invoke_model m")
    case True
    with Cons try_models_unavailable [OF True, of jl zs ms] show ?thesis
      by (simp del: try_models.simps)
  next
    case False
    have "try_models jl invoke_model zs (m # ms) = attempt jl invoke_model zs m"
      by (rule try_models_stop [OF False])
    with False show ?thesis
      by (simp add: attempt_requests del: try_models.simps)
  qed
qed




lemma analyze_with_ai_success:
  assumes "zs \<noteq> []"
    and "fst (try_models jl invoke_model zs models_to_try) = Inr res"
  shows "fst (analyze_with_ai jl (Inr invoke_model) zs) = Inr res"
  using assms by (auto simp: analyze_with_ai_def split: sum.splits prod.splits)



text \<open>
  Claim C6. Let the model's text \<open>s\<close> hold no parseable JSON object between its first
  opening and its last closing brace: there is no opening brace, or no closing brace,
  or \<^verbatim>\<open>json.loads\<close> raises on the text between them. Then the merge catches the failure
  and returns every record annotated \<open>unknown_failed_to_parse\<close>, and so does the
  analyzer, for a list that is not empty, when the first identifier the loop does not
  pass over answers with the text \<open>s\<close>.
\<close>

theorem unparseable_answer:
  assumes "py_find s (CHR ''{'') = - 1 \<or> py_rfind s (CHR ''}'') = - 1
     \<or> json_loads (py_slice s (py_find s (CHR ''{'')) (py_rfind s (CHR ''}'') + 1)) = None"
  shows "(\<exists>e. merge_analysis json_loads zs (JString s)
             = (Inr (annotate_all unknown_failed_to_parse zs), [Echo_error_parsing e]))
     \<and> (\<forall>invoke_model m rest body.
           zs \<noteq> [] \<and> dropWhile (model_unavailable invoke_model) models_to_try = m # rest
           \<and> invoke_model m = Inr body \<and> response_text json_loads body = Inr (JString s) \<longrightarrow>
           fst (analyze_with_ai json_loads (Inr invoke_model) zs)
             = Inr (annotate_all unknown_failed_to_parse zs))
     \<and> unknown_failed_to_parse =
         \<lparr>risk_score = JString ''Unknown'', reason = JString ''Failed to parse AI analysis''\<rparr>"
proof -
  from extract_json_fails [of s json_loads, OF assms] obtain e where "extract_json json_loads (JString s) = Inl e"
    by blast
  then have "merge_try json_loads zs (JString s) = Inl (e, zs)"
    by (simp add: merge_try_def)
  then have m: "merge_analysis json_loads zs (JString s)
             = (Inr (annotate_all unknown_failed_to_parse zs), [Echo_error_parsing e])"
    by (rule merge_analysis_failure)
  have "fst (analyze_with_ai json_loads (Inr invoke_model) zs)
             = Inr (annotate_all unknown_failed_to_parse zs)"
    if "zs \<noteq> []" "dropWhile (model_unavailable invoke_model) models_to_try = m # rest"
      "invoke_model m = Inr body" "response_text json_loads body = Inr (JString s)"
    for invoke_model m rest body
  proof -
    from try_models_first [of json_loads invoke_model zs models_to_try] that m
    have "fst (try_models json_loads invoke_model zs models_to_try)
            = Inr (annotate_all unknown_failed_to_parse zs)"
      by (simp add: attempt_answer)
    from analyze_with_ai_success [OF that(1) this] show ?thesis .
  qed
  with m show ?thesis
    by (simp add: unknown_failed_to_parse_def [symmetric])
qed

text \<open>The text \<^verbatim>\<open>not json\<close>, answered to the second identifier after the first is refused.\<close>

theorem unparseable_answer_witness:
  "py_find ''not json'' (CHR ''{'') = - 1
   \<and> merge_analysis example_loads example_zombies (JString ''not json'')
       = (Inr (annotate_all unknown_failed_to_parse example_zombies),
          [Echo_error_parsing ValueError])
   \<and> response_text example_loads example_not_json_body = Inr (JString ''not json'')
   \<and> fst (analyze_with_ai example_loads (Inr example_invoke) example_zombies)
       = Inr (annotate_all unknown_failed_to_parse example_zombies)"
proof -
  have h: "py_find ''not json'' (CHR ''{'') = - 1" by simp
  have z: "example_zombies \<noteq> []"
    by (simp add: example_zombies_def)
  have d: "dropWhile (model_unavailable example_invoke) models_to_try
              = [''anthropic.claude-3-5-sonnet-20241022-v2:0'',
                 ''anthropic.claude-3-sonnet-20240229-v1:0'',
                 ''anthropic.claude-instant-v1'']"
    by (simp add: models_to_try_def model_unavailable_def example_invoke_def
        unavailable_codes_def)
  have i: "example_invoke ''anthropic.claude-3-5-sonnet-20241022-v2:0''
             = Inr example_not_json_body"
    by (simp add: example_invoke_def)
  have r: "response_text example_loads example_not_json_body = Inr (JString ''not json'')"
    by (simp add: response_text_def example_loads_def example_not_json_envelope_def
        subscript_key_def subscript_index_def)
  from unparseable_answer [of "''not json''" example_loads example_zombies] h
  obtain e where
    m: "merge_analysis example_loads example_zombies (JString ''not json'')
          = (Inr (annotate_all unknown_failed_to_parse example_zombies), [Echo_error_parsing e])"
    and a: "\<And>invoke_model m rest body.
           example_zombies \<noteq> [] \<Longrightarrow>
           dropWhile (model_unavailable invoke_model) models_to_try = m # rest \<Longrightarrow>
           invoke_model m = Inr body \<Longrightarrow>
           response_text example_loads body = Inr (JString ''not json'') \<Longrightarrow>
           fst (analyze_with_ai example_loads (Inr invoke_model) example_zombies)
             = Inr (annotate_all unknown_failed_to_parse example_zombies)"
    by blast
  have "merge_analysis example_loads example_zombies (JString ''not json'')
          = (Inr (annotate_all unknown_failed_to_parse example_zombies),
             [Echo_error_parsing ValueError])"
    using m by (simp add: merge_analysis_def merge_try_def extract_json_def)
  with h r a [OF z d i r] show ?thesis by simp
qed



subsection \<open>The analyzer never raises\<close>



section \<open>Presenters: properties\<close>

text \<open>
  Claim C9. For the empty list, the table presenter prints the line that no resource was
  found and nothing else: no table, no total, no risk summary. The report the markdown
  presenter writes is the title with its summary (0 resources, the cost of nothing)
  followed by the message of a clean account, with no risk breakdown, no table of
  resources and no recommendations.
\<close>

theorem presenters_empty:
  "display_table ops [] = (Inr (), [Print_no_zombies])
   \<and> generate_markdown_report ops timestamp [] filename
       = (Inr [Md_summary timestamp 0 (f_of_int ops 0), Md_clean_account],
          [Print_report_saved filename])"
  by (simp add: display_table_def generate_markdown_report_def sum_costs_def)

text \<open>
  The table presenter completes exactly on the lists of presentable records. It then
  prints the table with one row per record, the total of the cost estimates, and the four
  counts.
\<close>

lemma display_row_presentable:
  assumes "presentable z"
  shows "\<exists>row. display_row ops (t, c, rows) z
           = Inr (f_add ops t (cost_estimate z),
                  \<lparr>Low = Low c + risk_total ''Low'' [z],
                   Medium = Medium c + risk_total ''Medium'' [z],
                   High = High c + risk_total ''High'' [z],
                   Unknown = Unknown c + risk_total ''Unknown'' [z]\<rparr>,
                  rows @ [row])"
  using assms
  by (cases c)
     (auto simp: presentable_def display_row_def count_risk_def risk_total_def Let_def
       split: json.splits)

lemma display_row_not_presentable:
  assumes "\<not> presentable z"
  shows "\<exists>e. display_row ops (t, c, rows) z = Inl e"
  using assms
  by (auto simp: presentable_def display_row_def count_risk_def Let_def
       split: json.splits)

lemma risk_total_Cons: "risk_total k (z # zs) = risk_total k [z] + risk_total k zs"
  by (simp add: risk_total_def)

lemma display_loop_presentable:
  "list_all presentable zs \<Longrightarrow>
   \<exists>rows'. display_loop ops (t, c, rows) zs
     = Inr (foldl (f_add ops) t (map cost_estimate zs),
            \<lparr>Low = Low c + risk_total ''Low'' zs,
             Medium = Medium c + risk_total ''Medium'' zs,
             High = High c + risk_total ''High'' zs,
             Unknown = Unknown c + risk_total ''Unknown'' zs\<rparr>,
            rows @ rows')
     \<and> length rows' = length zs"
proof (induction zs arbitrary: t c rows)
  case Nil
  then show ?case by (simp add: risk_total_def)
next
  case (Cons z zs)
  from Cons.prems have z: "presentable z" and zs: "list_all presentable zs" by simp_all
  from display_row_presentable [OF z, of ops t c rows] obtain row where
    r: "display_row ops (t, c, rows) z
           = Inr (f_add ops t (cost_estimate z),
                  \<lparr>Low = Low c + risk_total ''Low'' [z],
                   Medium = Medium c + risk_total ''Medium'' [z],
                   High = High c + risk_total ''High'' [z],
                   Unknown = Unknown c + risk_total ''Unknown'' [z]\<rparr>,
                  rows @ [row])"
    by blast
  from Cons.IH [OF zs, of "f_add ops t (cost_estimate z)"
      "\<lparr>Low = Low c + risk_total ''Low'' [z],
                   Medium = Medium c + risk_total ''Medium'' [z],
                   High = High c + risk_total ''High'' [z],
                   Unknown = Unknown c + risk_total ''Unknown'' [z]\<rparr>" "rows @ [row]"]
  obtain rows' where
    l: "display_loop ops (f_add ops t (cost_estimate z),
                  \<lparr>Low = Low c + risk_total ''Low'' [z],
                   Medium = Medium c + risk_total ''Medium'' [z],
                   High = High c + risk_total ''High'' [z],
                   Unknown = Unknown c + risk_total ''Unknown'' [z]\<rparr>,
                  rows @ [row]) zs
     = Inr (foldl (f_add ops) (f_add ops t (cost_estimate z)) (map cost_estimate zs),
            \<lparr>Low = Low c + risk_total ''Low'' [z] + risk_total ''Low'' zs,
             Medium = Medium c + risk_total ''Medium'' [z] + risk_total ''Medium'' zs,
             High = High c + risk_total ''High'' [z] + risk_total ''High'' zs,
             Unknown = Unknown c + risk_total ''Unknown'' [z] + risk_total ''Unknown'' zs\<rparr>,
            (rows @ [row]) @ rows')"
     and n: "length rows' = length zs"
    by auto
  have "display_loop ops (t, c, rows) (z # zs)
     = Inr (foldl (f_add ops) t (map cost_estimate (z # zs)),
            \<lparr>Low = Low c + risk_total ''Low'' (z # zs),
             Medium = Medium c + risk_total ''Medium'' (z # zs),
             High = High c + risk_total ''High'' (z # zs),
             Unknown = Unknown c + risk_total ''Unknown'' (z # zs)\<rparr>,
            rows @ (row # rows'))"
    by (simp add: r l risk_total_Cons [of _ z zs] add.assoc)
  with n show ?case
    by (intro exI [of _ "row # rows'"]) simp
qed

lemma display_loop_not_presentable:
  "\<not> list_all presentable zs \<Longrightarrow> \<exists>e. display_loop ops st zs = Inl e"
proof (induction zs arbitrary: st)
  case Nil
  then show ?case by simp
next
  case (Cons z zs)
  obtain t c rows where st: "st = (t, c, rows)" by (cases st)
  show ?case
  proof (cases "presentable z")
    case True
    with Cons.prems have "\<not> list_all presentable zs" by simp
    from Cons.IH [OF this] show ?thesis
      by (cases "display_row ops st z") auto
  next
    case False
    from display_row_not_presentable [OF this, of ops t c rows] show ?thesis
      by (auto simp: st)
  qed
qed

lemma display_table_presentable:
  assumes "zs \<noteq> []" and "list_all presentable zs"
  shows "\<exists>rows. display_table ops zs
           = (Inr (),
              [Print_table rows,
               Print_total_cost (sum_costs ops zs),
               Print_risk_summary (risk_total ''Low'' zs) (risk_total ''Medium'' zs)
                 (risk_total ''High'' zs) (risk_total ''Unknown'' zs)])
         \<and> length rows = length zs"
proof -
  from display_loop_presentable [OF assms(2), of ops "f_of_int ops 0" no_risks "[]"]
  obtain rows where
    "display_loop ops (f_of_int ops 0, no_risks, []) zs
     = Inr (sum_costs ops zs,
            \<lparr>Low = risk_total ''Low'' zs, Medium = risk_total ''Medium'' zs,
             High = risk_total ''High'' zs, Unknown = risk_total ''Unknown'' zs\<rparr>, rows)"
    "length rows = length zs"
    by (auto simp: sum_costs_def no_risks_def)
  with assms(1) show ?thesis
    by (simp add: display_table_def)
qed

lemma display_table_not_presentable:
  assumes "\<not> list_all presentable zs"
  shows "\<exists>e. display_table ops zs = (Inl e, [])"
proof -
  from assms have "zs \<noteq> []" by auto
  with display_loop_not_presentable [OF assms, of ops "(f_of_int ops 0, no_risks, [])"]
  show ?thesis
    by (auto simp: display_table_def)
qed

text \<open>
  Claim C8 fails for a risk score that is not one of the four keys of \<^verbatim>\<open>risk_counts\<close>.
  The merge copies the model's \<^verbatim>\<open>risk_score\<close> unchecked: the answer \<^verbatim>\<open>Critical\<close> for
  record 1 gives a list on which \<^verbatim>\<open>risk_counts[risk_score] += 1\<close> raises \<^verbatim>\<open>KeyError\<close>,
  before the table or the summary is printed.
\<close>

theorem display_table_unknown_risk:
  "fst (merge_analysis example_loads example_zombies (example_answer example_critical_json))
     = Inr [(example_zombies ! 0)\<lparr>ai_analysis :=
               Some \<lparr>risk_score = JString ''Critical'',
                     reason = JString ''Production address''\<rparr>\<rparr>,
            (example_zombies ! 1)\<lparr>ai_analysis := Some unknown_not_available\<rparr>]
   \<and> display_table exact_ops
        [(example_zombies ! 0)\<lparr>ai_analysis :=
            Some \<lparr>risk_score = JString ''Critical'',
                  reason = JString ''Production address''\<rparr>\<rparr>,
         (example_zombies ! 1)\<lparr>ai_analysis := Some unknown_not_available\<rparr>]
       = (Inl KeyError, [])"
proof -
  have x: "extract_json example_loads (example_answer example_critical_json)
             = Inr example_critical"
    by (simp add: extract_json_def example_answer_def example_critical_json_def py_rfind_def
        py_slice_def example_loads_def example_not_json_body_def example_low_high_json_def
        example_missing_key_json_def)
  have m: "merge_try example_loads example_zombies (example_answer example_critical_json)
     = Inr [(example_zombies ! 0)\<lparr>ai_analysis :=
               Some \<lparr>risk_score = JString ''Critical'',
                     reason = JString ''Production address''\<rparr>\<rparr>,
            (example_zombies ! 1)\<lparr>ai_analysis := Some unknown_not_available\<rparr>]"
    by (simp add: merge_try_def x example_critical_def method_get_def dict_get_def py_iter_def
        example_zombies_def merge_entry_def subscript_key_def minus_one_def in_bounds_def
        add_default_def eip_record_def volume_record_def)
  have d: "display_table exact_ops
        [(example_zombies ! 0)\<lparr>ai_analysis :=
            Some \<lparr>risk_score = JString ''Critical'',
                  reason = JString ''Production address''\<rparr>\<rparr>,
         (example_zombies ! 1)\<lparr>ai_analysis := Some unknown_not_available\<rparr>]
       = (Inl KeyError, [])"
    by (simp add: display_table_def display_row_def risk_of_def count_risk_def
        example_zombies_def)
  from m d show ?thesis
    by (simp add: merge_analysis_def)
qed

end
